theory Spec2Isabelle
  imports Complex_Main
begin

section \<open>Configuration\<close>

text \<open>
  The constants of \<^verbatim>\<open>src/config/index.ts\<close> (\<^verbatim>\<open>config.vm\<close> and \<^verbatim>\<open>config.credits\<close>).
  The port range has a lower bound only: there is no upper bound in the configuration.
\<close>

definition baseSSHPort :: int where
  "baseSSHPort = 30000"

definition maxVMsPerUser :: nat where
  "maxVMsPerUser = 3"

definition vmCostPerHour :: int where
  "vmCostPerHour = 10"

definition defaultImage :: string where
  "defaultImage = ''ubuntu:22.04''"

definition defaultMemoryLimit :: int where
  "defaultMemoryLimit = 512 * 1024 * 1024"

section \<open>Data model\<close>

text \<open>
  \<^verbatim>\<open>IVM\<close> of the models file. Identifiers of users and VM records are natural numbers,
  timestamps are integers (milliseconds since the epoch), the two optional dates are
  \<open>None\<close> where Mongoose stores \<^verbatim>\<open>null\<close>.
\<close>

datatype vm_status = Creating | Running | Stopped | Terminated | Error

record vm =
  vm_id :: nat
  ownerId :: nat
  containerId :: string
  name :: string
  status :: vm_status
  ipAddress :: "string option"
  sshPort :: int
  image_name :: string
  memoryLimit :: int
  cpuShares :: int
  lastStartedAt :: "int option"
  lastStoppedAt :: "int option"
  totalRuntime :: int
  creditsConsumed :: int

text \<open>
  Every \<^verbatim>\<open>throw\<close> of the service is a value. The constructors stand for the messages
  \<^verbatim>\<open>Maximum VM limit (3) reached\<close>, \<^verbatim>\<open>User not found\<close>,
  \<^verbatim>\<open>Insufficient credits to provision VM\<close>, \<^verbatim>\<open>VM not found\<close>,
  \<^verbatim>\<open>VM is already running\<close>, \<^verbatim>\<open>Cannot start a terminated VM\<close>,
  \<^verbatim>\<open>Insufficient credits\<close>, \<^verbatim>\<open>VM is not running\<close>; \<open>Rethrown c\<close> is an error of
  the container engine or the file system that the service lets through (\<open>c\<close> is its
  \<^verbatim>\<open>statusCode\<close>, 0 when it has none); \<open>DuplicateKey\<close> is the rejection of an
  insert by a unique index of the VM schema, \<open>ValidationError\<close> the failure of the
  schema's validation when a document is saved.
\<close>

datatype error =
    VMLimitReached
  | UserNotFound
  | InsufficientCreditsToProvision
  | VMNotFound
  | AlreadyRunning
  | CannotStartTerminated
  | InsufficientCredits
  | NotRunning
  | Rethrown nat
  | DuplicateKey
  | ValidationError

text \<open>The specification's error class \<open>InvalidState\<close> covers three of the messages.\<close>

definition invalidState :: "error \<Rightarrow> bool" where
  "invalidState e = (e = AlreadyRunning \<or> e = CannotStartTerminated \<or> e = NotRunning)"

text \<open>
  The container engine is outside the program. Each call to it either returns or throws,
  and what it does is an input of the operation that makes the call: \<open>clock\<close> is the
  reading of \<^verbatim>\<open>Date.now()\<close> during the operation, the other fields are the outcomes
  of \<^verbatim>\<open>ensureUserDirectory\<close>, of the image inspection and pull, and of the engine's
  \<^verbatim>\<open>createContainer\<close>, \<^verbatim>\<open>start\<close>, \<^verbatim>\<open>stop\<close>, \<^verbatim>\<open>remove\<close>, \<^verbatim>\<open>inspect\<close> and
  \<^verbatim>\<open>exec\<close>.
\<close>

datatype 'a outcome = Returned 'a | Threw nat

record inspect_info =
  state_running :: bool
  network_ip :: "string option"

record env =
  clock :: int
  dirResult :: "unit outcome"
  imageResult :: "unit outcome"
  createResult :: "string outcome"
  startResult :: "unit outcome"
  stopResult :: "unit outcome"
  removeResult :: "unit outcome"
  inspectResult :: "inspect_info outcome"
  execResult :: "unit outcome"

text \<open>Terminal sessions (\<^verbatim>\<open>TerminalConnection\<close> of the WebSocket module).\<close>

datatype json =
    JNull
  | JBool bool
  | JNum int
  | JStr string
  | JArr "json list"
  | JObj "(string \<times> json) list"

datatype frame = Connected | Output string | Disconnect | ErrorFrame string | Pong

datatype ready_state = Open | Closing | Closed

record terminal_connection =
  c_userId :: nat
  c_vmId :: nat
  ws_readyState :: ready_state
  ws_sent :: "frame list"
  ws_closeCode :: "nat option"
  attached :: bool
  stream_written :: "string list"
  stream_ended :: bool
  resized :: "(json \<times> json) list"

text \<open>
  The whole state: the VM collection and the credit balances of the database, the
  in-process port set of the service, and the in-process session map of the WebSocket
  module (keyed by \<^verbatim>\<open>userId-vmId-Date.now()\<close>).
\<close>

record state =
  vms :: "vm list"
  users :: "nat \<rightharpoonup> int"
  usedPorts :: "int list"
  connections :: "((nat \<times> nat \<times> int) \<times> terminal_connection) list"

section \<open>Persistence helpers\<close>

text \<open>\<^verbatim>\<open>VM.findOne({ _id: vmId, ownerId: userId })\<close> and \<^verbatim>\<open>VM.findOne({ containerId })\<close>.\<close>

definition findOwned :: "nat \<Rightarrow> nat \<Rightarrow> state \<Rightarrow> vm option" where
  "findOwned vmId userId st = find (\<lambda>v. vm_id v = vmId \<and> ownerId v = userId) (vms st)"

definition findByContainer :: "string \<Rightarrow> state \<Rightarrow> vm option" where
  "findByContainer cid st = find (\<lambda>v. containerId v = cid) (vms st)"

text \<open>\<^verbatim>\<open>vm.save()\<close> on a document that is already stored: the record with its id is replaced.\<close>

definition saveVM :: "vm \<Rightarrow> state \<Rightarrow> state" where
  "saveVM v st = st\<lparr>vms := map (\<lambda>w. if vm_id w = vm_id v then v else w) (vms st)\<rparr>"

text \<open>
  \<^verbatim>\<open>User.findByIdAndUpdate(userId, { $inc: { credits: -creditsUsed } })\<close>: a plain
  increment, with no validation and no floor; nothing happens when the user is missing.
\<close>

definition incCredits :: "nat \<Rightarrow> int \<Rightarrow> state \<Rightarrow> state" where
  "incCredits userId d st =
     (case users st userId of
        None \<Rightarrow> st
      | Some c \<Rightarrow> st\<lparr>users := (users st)(userId \<mapsto> c + d)\<rparr>)"

section \<open>Billing\<close>

text \<open>
  \<^verbatim>\<open>Math.floor((Date.now() - vm.lastStartedAt.getTime()) / 1000)\<close> and
  \<^verbatim>\<open>Math.ceil(runtime / 3600 * config.credits.vmCostPerHour)\<close>, with the JavaScript
  numbers read as exact reals.
\<close>

definition runtimeSeconds :: "int \<Rightarrow> int \<Rightarrow> int" where
  "runtimeSeconds t lastStarted = \<lfloor>real_of_int (t - lastStarted) / 1000\<rfloor>"

definition creditsUsed :: "int \<Rightarrow> int" where
  "creditsUsed runtime = \<lceil>real_of_int runtime / 3600 * real_of_int vmCostPerHour\<rceil>"

section \<open>Stopping a VM\<close>

text \<open>
  \<^verbatim>\<open>stopVM\<close>. An engine error other than 304 (already stopped) is rethrown before any
  change. Billing happens only when \<^verbatim>\<open>lastStartedAt\<close> is set.
\<close>

definition billStop :: "int \<Rightarrow> nat \<Rightarrow> vm \<Rightarrow> state \<Rightarrow> vm \<times> state" where
  "billStop t userId v st =
     (case lastStartedAt v of
        None \<Rightarrow> (v, st)
      | Some t0 \<Rightarrow>
          (let runtime = runtimeSeconds t t0;
               used = creditsUsed runtime
           in (v\<lparr>totalRuntime := totalRuntime v + runtime,
                  creditsConsumed := creditsConsumed v + used\<rparr>,
               incCredits userId (- used) st)))"

text \<open>
  \<^verbatim>\<open>try { await container.stop() } catch (err) { if (err.statusCode !== 304) throw err }\<close>
  (and the same around \<^verbatim>\<open>container.start()\<close>): the status code that is rethrown, if any.
\<close>

definition rethrowUnless304 :: "unit outcome \<Rightarrow> nat option" where
  "rethrowUnless304 r =
     (case r of Returned _ \<Rightarrow> None | Threw c \<Rightarrow> if c \<noteq> 304 then Some c else None)"

definition stopVM :: "env \<Rightarrow> nat \<Rightarrow> nat \<Rightarrow> state \<Rightarrow> (error + vm) \<times> state" where
  "stopVM e vmId userId st =
     (case findOwned vmId userId st of
        None \<Rightarrow> (Inl VMNotFound, st)
      | Some v \<Rightarrow>
          if status v \<noteq> Running then (Inl NotRunning, st)
          else
            (case rethrowUnless304 (stopResult e) of
               Some c \<Rightarrow> (Inl (Rethrown c), st)
             | None \<Rightarrow>
                 (let (v1, st1) = billStop (clock e) userId v st;
                      v2 = v1\<lparr>status := Stopped, lastStoppedAt := Some (clock e)\<rparr>
                  in (Inr v2, saveVM v2 st1))))"

section \<open>Port allocation\<close>

text \<open>
  \<^verbatim>\<open>usedPorts\<close> is a JavaScript \<^verbatim>\<open>Set\<close>, kept here as a list without duplicates in
  insertion order. \<^verbatim>\<open>getNextAvailablePort\<close> adds the ports of every record that is not
  terminated to it, then counts upwards from \<^verbatim>\<open>baseSSHPort\<close> while the port is in the
  set, with no upper bound. The set is finite, which is why the loop ends.
\<close>

definition addPort :: "int \<Rightarrow> int list \<Rightarrow> int list" where
  "addPort p ps = (if p \<in> set ps then ps else ps @ [p])"

function nextFree :: "int list \<Rightarrow> int \<Rightarrow> int" where
  "nextFree ps port = (if port \<in> set ps then nextFree ps (port + 1) else port)"
  by pat_completeness auto
termination
proof (relation "measure (\<lambda>(ps, port). length (filter (\<lambda>q. port \<le> q) ps))")
  show "wf (measure (\<lambda>(ps, port). length (filter (\<lambda>q. port \<le> q) ps)))"
    by simp
next
  fix ps :: "int list" and port :: int
  assume mem: "port \<in> set ps"
  have "filter (\<lambda>q. port + 1 \<le> q) ps = filter (\<lambda>q. port + 1 \<le> q) (filter (\<lambda>q. port \<le> q) ps)"
    by (induction ps) auto
  moreover have "port \<in> set (filter (\<lambda>q. port \<le> q) ps)"
    using mem by simp
  then have "length (filter (\<lambda>q. port + 1 \<le> q) (filter (\<lambda>q. port \<le> q) ps))
      < length (filter (\<lambda>q. port \<le> q) ps)"
    by (rule length_filter_less) simp
  ultimately show "((ps, port + 1), (ps, port))
      \<in> measure (\<lambda>(ps, port). length (filter (\<lambda>q. port \<le> q) ps))"
    by simp
qed

definition getNextAvailablePort :: "state \<Rightarrow> int \<times> state" where
  "getNextAvailablePort st =
     (let existingVMs = filter (\<lambda>v. status v \<noteq> Terminated) (vms st);
          used = foldl (\<lambda>ps v. addPort (sshPort v) ps) (usedPorts st) existingVMs;
          port = nextFree used baseSSHPort
      in (port, st\<lparr>usedPorts := addPort port used\<rparr>))"

definition freePort :: "int \<Rightarrow> state \<Rightarrow> state" where
  "freePort p st = st\<lparr>usedPorts := removeAll p (usedPorts st)\<rparr>"

section \<open>Provisioning\<close>

record provision_options =
  opt_image :: "string option"
  opt_memoryLimit :: "int option"
  opt_cpuShares :: "int option"

text \<open>\<^verbatim>\<open>options.x || fallback\<close>: a missing, empty or zero option gives the fallback.\<close>

definition orString :: "string option \<Rightarrow> string \<Rightarrow> string" where
  "orString x d = (case x of None \<Rightarrow> d | Some s \<Rightarrow> if s = [] then d else s)"

definition orNumber :: "int option \<Rightarrow> int \<Rightarrow> int" where
  "orNumber x d = (case x of None \<Rightarrow> d | Some n \<Rightarrow> if n = 0 then d else n)"

text \<open>
  The schema declares \<^verbatim>\<open>name\<close> with \<^verbatim>\<open>trim: true\<close>: the setter strips the white space
  at both ends when \<^verbatim>\<open>new VM({...})\<close> assigns the field (the ASCII white space
  characters are modelled).
\<close>

definition whitespace :: "char \<Rightarrow> bool" where
  "whitespace ch =
     (ch = CHR '' '' \<or> ch = CHR 0x09 \<or> ch = CHR 0x0A \<or> ch = CHR 0x0B \<or> ch = CHR 0x0C
      \<or> ch = CHR 0x0D)"

definition trimName :: "string \<Rightarrow> string" where
  "trimName s = rev (dropWhile whitespace (rev (dropWhile whitespace s)))"

text \<open>
  \<^verbatim>\<open>vm.save()\<close> on a new document. Validation runs first: \<^verbatim>\<open>containerId\<close> and
  \<^verbatim>\<open>name\<close> are \<^verbatim>\<open>required\<close>, which an empty string does not satisfy. The schema
  also declares \<^verbatim>\<open>containerId\<close> and \<^verbatim>\<open>sshPort\<close> with \<^verbatim>\<open>unique: true\<close>, an index
  over the whole collection, terminated records included (no record is ever deleted):
  an insert that repeats either value is rejected by the database.
\<close>

definition insertVM :: "vm \<Rightarrow> state \<Rightarrow> error + state" where
  "insertVM v st =
     (if containerId v = [] \<or> name v = [] then Inl ValidationError
      else
        (case find (\<lambda>w. containerId w = containerId v \<or> sshPort w = sshPort v) (vms st) of
           Some _ \<Rightarrow> Inl DuplicateKey
         | None \<Rightarrow> Inr (st\<lparr>vms := vms st @ [v]\<rparr>)))"

text \<open>
  The part of \<^verbatim>\<open>provisionVM\<close> after its checks: reserve the port, get the image, create
  the container, store the record as \<^verbatim>\<open>creating\<close>, start and inspect the container,
  store the record as \<^verbatim>\<open>running\<close>. No step is undone when a later one throws, so a
  name that is empty once trimmed fails at the first save with the port reserved and
  the container created. A new record gets the next unused identifier.
\<close>

definition provisionRun ::
  "env \<Rightarrow> nat \<Rightarrow> string \<Rightarrow> provision_options \<Rightarrow> state \<Rightarrow> (error + vm) \<times> state" where
  "provisionRun e userId vmName opts st =
     (let (port, st1) = getNextAvailablePort st in
      case imageResult e of
        Threw c \<Rightarrow> (Inl (Rethrown c), st1)
      | Returned _ \<Rightarrow>
          (case createResult e of
             Threw c \<Rightarrow> (Inl (Rethrown c), st1)
           | Returned cid \<Rightarrow>
               (let v = \<lparr>vm_id = length (vms st1), ownerId = userId, containerId = cid,
                         name = trimName vmName, status = Creating, ipAddress = None,
                         sshPort = port,
                         image_name = orString (opt_image opts) defaultImage,
                         memoryLimit = orNumber (opt_memoryLimit opts) defaultMemoryLimit,
                         cpuShares = orNumber (opt_cpuShares opts) 512,
                         lastStartedAt = None, lastStoppedAt = None,
                         totalRuntime = 0, creditsConsumed = 0\<rparr>
                in case insertVM v st1 of
                     Inl err \<Rightarrow> (Inl err, st1)
                   | Inr st2 \<Rightarrow>
                       (case startResult e of
                          Threw c \<Rightarrow> (Inl (Rethrown c), st2)
                        | Returned _ \<Rightarrow>
                            (case inspectResult e of
                               Threw c \<Rightarrow> (Inl (Rethrown c), st2)
                             | Returned info \<Rightarrow>
                                 (let v' = v\<lparr>status := Running,
                                              ipAddress := network_ip info,
                                              lastStartedAt := Some (clock e)\<rparr>
                                  in (Inr v', saveVM v' st2)))))))"

text \<open>
  \<^verbatim>\<open>provisionVM\<close>: the quota counts the owner's records whose status is
  \<^verbatim>\<open>running\<close>, \<^verbatim>\<open>stopped\<close> or \<^verbatim>\<open>creating\<close>; then the user must exist and hold at
  least \<^verbatim>\<open>vmCostPerHour\<close> credits.
\<close>

definition countsForQuota :: "nat \<Rightarrow> vm \<Rightarrow> bool" where
  "countsForQuota userId v =
     (ownerId v = userId \<and> (status v = Running \<or> status v = Stopped \<or> status v = Creating))"

definition provisionVM ::
  "env \<Rightarrow> nat \<Rightarrow> string \<Rightarrow> provision_options \<Rightarrow> state \<Rightarrow> (error + vm) \<times> state" where
  "provisionVM e userId vmName opts st =
     (if length (filter (countsForQuota userId) (vms st)) \<ge> maxVMsPerUser
      then (Inl VMLimitReached, st)
      else
        (case users st userId of
           None \<Rightarrow> (Inl UserNotFound, st)
         | Some credits \<Rightarrow>
             if credits < vmCostPerHour then (Inl InsufficientCreditsToProvision, st)
             else
               (case dirResult e of
                  Threw c \<Rightarrow> (Inl (Rethrown c), st)
                | Returned _ \<Rightarrow> provisionRun e userId vmName opts st)))"

section \<open>Starting, terminating, reconciling\<close>

text \<open>\<^verbatim>\<open>startVM\<close>: only \<^verbatim>\<open>running\<close> and \<^verbatim>\<open>terminated\<close> are refused.\<close>

definition startVM :: "env \<Rightarrow> nat \<Rightarrow> nat \<Rightarrow> state \<Rightarrow> (error + vm) \<times> state" where
  "startVM e vmId userId st =
     (case findOwned vmId userId st of
        None \<Rightarrow> (Inl VMNotFound, st)
      | Some v \<Rightarrow>
          if status v = Running then (Inl AlreadyRunning, st)
          else if status v = Terminated then (Inl CannotStartTerminated, st)
          else if (case users st userId of None \<Rightarrow> True | Some c \<Rightarrow> c < vmCostPerHour)
          then (Inl InsufficientCredits, st)
          else
            (case rethrowUnless304 (startResult e) of
               Some c \<Rightarrow> (Inl (Rethrown c), st)
             | None \<Rightarrow>
                 (case inspectResult e of
                    Threw c \<Rightarrow> (Inl (Rethrown c), st)
                  | Returned info \<Rightarrow>
                      (let v' = v\<lparr>status := Running,
                                   ipAddress := network_ip info,
                                   lastStartedAt := Some (clock e)\<rparr>
                       in (Inr v', saveVM v' st)))))"

text \<open>
  \<^verbatim>\<open>terminateVM\<close>: the engine calls (inspect, stop when running, remove) sit in a
  \<^verbatim>\<open>try\<close> whose \<^verbatim>\<open>catch\<close> only logs, so their outcomes change nothing here. The port
  is deleted from the in-process set and the record is stored as \<^verbatim>\<open>terminated\<close>.
  The function does not touch the session map.
\<close>

definition terminateVM :: "env \<Rightarrow> nat \<Rightarrow> nat \<Rightarrow> state \<Rightarrow> (error + unit) \<times> state" where
  "terminateVM e vmId userId st =
     (case findOwned vmId userId st of
        None \<Rightarrow> (Inl VMNotFound, st)
      | Some v \<Rightarrow> (Inr (), saveVM (v\<lparr>status := Terminated\<rparr>) (freePort (sshPort v) st)))"

text \<open>\<^verbatim>\<open>getVMStatus\<close>: the stored status follows the engine unless it is \<^verbatim>\<open>terminated\<close>.\<close>

definition getVMStatus :: "env \<Rightarrow> nat \<Rightarrow> nat \<Rightarrow> state \<Rightarrow> (error + vm) \<times> state" where
  "getVMStatus e vmId userId st =
     (case findOwned vmId userId st of
        None \<Rightarrow> (Inl VMNotFound, st)
      | Some v \<Rightarrow>
          (case inspectResult e of
             Returned info \<Rightarrow>
               (let actualStatus = (if state_running info then Running else Stopped) in
                if status v \<noteq> Terminated \<and> status v \<noteq> actualStatus
                then (let v' = v\<lparr>status := actualStatus\<rparr> in (Inr v', saveVM v' st))
                else (Inr v, st))
           | Threw _ \<Rightarrow>
               if status v \<noteq> Terminated
               then (let v' = v\<lparr>status := Error\<rparr> in (Inr v', saveVM v' st))
               else (Inr v, st)))"

section \<open>Administrative operations\<close>

text \<open>
  \<^verbatim>\<open>forceStopContainer\<close> and \<^verbatim>\<open>forceRemoveContainer\<close>: the engine call comes first and
  its error is not caught; then the record with that container, if there is one, is
  updated whatever its status is.
\<close>

definition forceStopContainer :: "env \<Rightarrow> string \<Rightarrow> state \<Rightarrow> (error + unit) \<times> state" where
  "forceStopContainer e cid st =
     (case stopResult e of
        Threw c \<Rightarrow> (Inl (Rethrown c), st)
      | Returned _ \<Rightarrow>
          (case findByContainer cid st of
             None \<Rightarrow> (Inr (), st)
           | Some v \<Rightarrow>
               (Inr (), saveVM (v\<lparr>status := Stopped, lastStoppedAt := Some (clock e)\<rparr>) st)))"

definition forceRemoveContainer :: "env \<Rightarrow> string \<Rightarrow> state \<Rightarrow> (error + unit) \<times> state" where
  "forceRemoveContainer e cid st =
     (case removeResult e of
        Threw c \<Rightarrow> (Inl (Rethrown c), st)
      | Returned _ \<Rightarrow>
          (case findByContainer cid st of
             None \<Rightarrow> (Inr (), st)
           | Some v \<Rightarrow>
               (Inr (), saveVM (v\<lparr>status := Terminated\<rparr>) (freePort (sshPort v) st))))"

section \<open>Terminal sessions\<close>

text \<open>
  \<^verbatim>\<open>connections\<close> is a JavaScript \<^verbatim>\<open>Map\<close>: \<^verbatim>\<open>set\<close> replaces the value of a key
  that is present and appends a new key, \<^verbatim>\<open>delete\<close> removes the key.
\<close>

definition mapSet :: "'k \<Rightarrow> 'v \<Rightarrow> ('k \<times> 'v) list \<Rightarrow> ('k \<times> 'v) list" where
  "mapSet k v kvs =
     (case map_of kvs k of
        None \<Rightarrow> kvs @ [(k, v)]
      | Some _ \<Rightarrow> map (\<lambda>kv. if fst kv = k then (k, v) else kv) kvs)"

definition mapDelete :: "'k \<Rightarrow> ('k \<times> 'v) list \<Rightarrow> ('k \<times> 'v) list" where
  "mapDelete k kvs = filter (\<lambda>kv. fst kv \<noteq> k) kvs"

text \<open>\<^verbatim>\<open>attachToVM\<close>: the record must exist, belong to the caller and be \<^verbatim>\<open>running\<close>.\<close>

definition attachToVM :: "env \<Rightarrow> nat \<Rightarrow> nat \<Rightarrow> state \<Rightarrow> error + unit" where
  "attachToVM e vmId userId st =
     (case findOwned vmId userId st of
        None \<Rightarrow> Inl VMNotFound
      | Some v \<Rightarrow>
          if status v \<noteq> Running then Inl NotRunning
          else (case execResult e of Threw c \<Rightarrow> Inl (Rethrown c) | Returned _ \<Rightarrow> Inr ()))"

text \<open>
  The \<^verbatim>\<open>connection\<close> handler. \<open>token\<close> is \<open>None\<close> when the URL has no token, otherwise
  the outcome of \<^verbatim>\<open>verifyToken\<close> (the user id it decodes). The result is the close code
  when the server closes the channel at once, and the new state. After a successful
  attach the source registers the handlers of the stream (\<^verbatim>\<open>data\<close>, \<^verbatim>\<open>end\<close>,
  \<^verbatim>\<open>error\<close>) and of the channel (\<^verbatim>\<open>message\<close>, \<^verbatim>\<open>close\<close>, \<^verbatim>\<open>error\<close>); they are the
  definitions that follow, run by \<open>step\<close> when their event occurs on the session
  stored under a key.
\<close>

definition newConnection :: "nat \<Rightarrow> nat \<Rightarrow> terminal_connection" where
  "newConnection userId vmId =
     \<lparr>c_userId = userId, c_vmId = vmId, ws_readyState = Open, ws_sent = [],
      ws_closeCode = None, attached = False, stream_written = [], stream_ended = False,
      resized = []\<rparr>"

definition on_connection ::
  "env \<Rightarrow> nat outcome option \<Rightarrow> nat option \<Rightarrow> state \<Rightarrow> nat option \<times> state" where
  "on_connection e token vmIdParam st =
     (case token of
        None \<Rightarrow> (Some 1008, st)
      | Some (Threw _) \<Rightarrow> (Some 1008, st)
      | Some (Returned userId) \<Rightarrow>
          (case users st userId of
             None \<Rightarrow> (Some 1008, st)
           | Some _ \<Rightarrow>
               (case vmIdParam of
                  None \<Rightarrow> (Some 1008, st)
                | Some vmId \<Rightarrow>
                    (let key = (userId, vmId, clock e);
                         conn = newConnection userId vmId;
                         st1 = st\<lparr>connections := mapSet key conn (connections st)\<rparr>
                     in case attachToVM e vmId userId st1 of
                          Inr _ \<Rightarrow>
                            (None,
                             st1\<lparr>connections :=
                               mapSet key (conn\<lparr>attached := True, ws_sent := [Connected]\<rparr>)
                                 (connections st1)\<rparr>)
                        | Inl err \<Rightarrow>
                            (Some 1011,
                             st1\<lparr>connections := mapDelete key (connections st1)\<rparr>)))))"

text \<open>
  The \<^verbatim>\<open>message\<close> handler. \<open>parsed\<close> is the result of \<^verbatim>\<open>JSON.parse\<close>, \<open>None\<close> when
  it throws; numbers are kept as integers. Reading \<^verbatim>\<open>message.type\<close> of \<^verbatim>\<open>null\<close>
  throws inside the same \<^verbatim>\<open>try\<close>; every other value that is not an object has no
  such property. A later duplicate key of an object wins. \<^verbatim>\<open>stream.write\<close> accepts a
  string and throws on anything else, again inside the \<^verbatim>\<open>try\<close>.
\<close>

definition property :: "string \<Rightarrow> json \<Rightarrow> json option" where
  "property k j = (case j of JObj kvs \<Rightarrow> map_of (rev kvs) k | _ \<Rightarrow> None)"

definition truthy :: "json option \<Rightarrow> bool" where
  "truthy x =
     (case x of
        None \<Rightarrow> False
      | Some JNull \<Rightarrow> False
      | Some (JBool b) \<Rightarrow> b
      | Some (JNum n) \<Rightarrow> n \<noteq> 0
      | Some (JStr s) \<Rightarrow> s \<noteq> []
      | Some (JArr _) \<Rightarrow> True
      | Some (JObj _) \<Rightarrow> True)"

definition on_input :: "json \<Rightarrow> terminal_connection \<Rightarrow> terminal_connection" where
  "on_input m c =
     (if attached c
      then (case property ''data'' m of
              Some (JStr d) \<Rightarrow> c\<lparr>stream_written := stream_written c @ [d]\<rparr>
            | _ \<Rightarrow> c)
      else c)"

definition on_resize :: "json \<Rightarrow> terminal_connection \<Rightarrow> terminal_connection" where
  "on_resize m c =
     (if attached c \<and> truthy (property ''cols'' m) \<and> truthy (property ''rows'' m)
      then c\<lparr>resized := resized c @ [(the (property ''cols'' m), the (property ''rows'' m))]\<rparr>
      else c)"

definition on_message :: "json option \<Rightarrow> terminal_connection \<Rightarrow> terminal_connection" where
  "on_message parsed c =
     (case parsed of
        None \<Rightarrow> c
      | Some JNull \<Rightarrow> c
      | Some m \<Rightarrow>
          (case property ''type'' m of
             Some (JStr t) \<Rightarrow>
               if t = ''input'' then on_input m c
               else if t = ''resize'' then on_resize m c
               else if t = ''ping'' then c\<lparr>ws_sent := ws_sent c @ [Pong]\<rparr>
               else c
           | _ \<Rightarrow> c))"

text \<open>The handler of the session stored under \<open>key\<close>, run on the state.\<close>

definition handleMessage :: "nat \<times> nat \<times> int \<Rightarrow> json option \<Rightarrow> state \<Rightarrow> state" where
  "handleMessage key parsed st =
     st\<lparr>connections :=
          map (\<lambda>kv. if fst kv = key then (fst kv, on_message parsed (snd kv)) else kv)
            (connections st)\<rparr>"

text \<open>
  The stream handlers. \<^verbatim>\<open>data\<close> forwards the chunk and \<^verbatim>\<open>error\<close> sends an error
  frame, both only while the channel is open. \<^verbatim>\<open>end\<close> sends the disconnect frame and
  calls \<^verbatim>\<open>ws.close(1000)\<close>, which leaves the channel closing until its \<^verbatim>\<open>close\<close>
  event.
\<close>

definition on_stream_data :: "string \<Rightarrow> terminal_connection \<Rightarrow> terminal_connection" where
  "on_stream_data chunk c =
     (if ws_readyState c = Open then c\<lparr>ws_sent := ws_sent c @ [Output chunk]\<rparr> else c)"

definition on_stream_end :: "terminal_connection \<Rightarrow> terminal_connection" where
  "on_stream_end c =
     (if ws_readyState c = Open
      then c\<lparr>ws_sent := ws_sent c @ [Disconnect], ws_readyState := Closing,
             ws_closeCode := Some 1000\<rparr>
      else c)"

definition on_stream_error :: "terminal_connection \<Rightarrow> terminal_connection" where
  "on_stream_error c =
     (if ws_readyState c = Open
      then c\<lparr>ws_sent := ws_sent c @ [ErrorFrame ''Container stream error'']\<rparr>
      else c)"

text \<open>A stream handler of the session stored under \<open>key\<close>, run on the state.\<close>

definition onSession ::
  "nat \<times> nat \<times> int \<Rightarrow> (terminal_connection \<Rightarrow> terminal_connection) \<Rightarrow> state \<Rightarrow> state" where
  "onSession key f st =
     st\<lparr>connections :=
          map (\<lambda>kv. if fst kv = key then (fst kv, f (snd kv)) else kv) (connections st)\<rparr>"

text \<open>
  The stream of a session ends: the stream is over and its \<^verbatim>\<open>end\<close> handler runs.
\<close>

definition streamEnds :: "terminal_connection \<Rightarrow> terminal_connection" where
  "streamEnds c = on_stream_end (c\<lparr>stream_ended := True\<rparr>)"

text \<open>
  The channel handlers. \<^verbatim>\<open>close\<close> (the channel is closed by then) ends the stream when
  there is one and deletes the session; \<^verbatim>\<open>error\<close> deletes the session. The periodic
  sweep deletes the sessions whose channel is closed.
\<close>

definition on_ws_close :: "nat \<times> nat \<times> int \<Rightarrow> state \<Rightarrow> state" where
  "on_ws_close key st =
     (let st1 = onSession key
                  (\<lambda>c. c\<lparr>ws_readyState := Closed,
                          stream_ended := (if attached c then True else stream_ended c)\<rparr>) st
      in st1\<lparr>connections := mapDelete key (connections st1)\<rparr>)"

definition on_ws_error :: "nat \<times> nat \<times> int \<Rightarrow> state \<Rightarrow> state" where
  "on_ws_error key st = st\<lparr>connections := mapDelete key (connections st)\<rparr>"

definition sweep :: "state \<Rightarrow> state" where
  "sweep st =
     st\<lparr>connections := filter (\<lambda>kv. ws_readyState (snd kv) \<noteq> Closed) (connections st)\<rparr>"

text \<open>
  \<^verbatim>\<open>closeVMConnections\<close>: closes and deletes every session of the VM. No function of the
  repository calls it.
\<close>

definition closeVMConnections :: "nat \<Rightarrow> state \<Rightarrow> state" where
  "closeVMConnections vmId st =
     st\<lparr>connections := filter (\<lambda>kv. c_vmId (snd kv) \<noteq> vmId) (connections st)\<rparr>"

text \<open>The sessions of a VM that are in the map with an open channel.\<close>

definition openSessions :: "nat \<Rightarrow> state \<Rightarrow> ((nat \<times> nat \<times> int) \<times> terminal_connection) list" where
  "openSessions vmId st =
     filter (\<lambda>kv. c_vmId (snd kv) = vmId \<and> ws_readyState (snd kv) = Open) (connections st)"

section \<open>Sequences of operations\<close>

datatype op =
    Provision env nat string provision_options
  | Start env nat nat
  | Stop env nat nat
  | Terminate env nat nat
  | StatusQuery env nat nat
  | ForceStop env string
  | ForceRemove env string
  | Connect env "nat outcome option" "nat option"
  | Message "nat \<times> nat \<times> int" "json option"
  | StreamData "nat \<times> nat \<times> int" string
  | StreamEnd "nat \<times> nat \<times> int"
  | StreamError "nat \<times> nat \<times> int"
  | ChannelClose "nat \<times> nat \<times> int"
  | ChannelError "nat \<times> nat \<times> int"
  | Sweep

text \<open>
  The engine ends the streams of a container's exec sessions when it stops or removes
  the container. \<open>endStreams\<close> is that event for every live stream attached to a VM.
  Whether a call of the service made the engine stop the container is read off the
  outcomes of its engine calls: \<^verbatim>\<open>stopVM\<close> and \<^verbatim>\<open>forceStopContainer\<close> when
  \<^verbatim>\<open>stop\<close> returned, \<^verbatim>\<open>forceRemoveContainer\<close> when \<^verbatim>\<open>remove\<close> returned, and the
  clean-up of \<^verbatim>\<open>terminateVM\<close> (inspect, stop when running, then remove, all in one
  \<^verbatim>\<open>try\<close>) when \<^verbatim>\<open>inspect\<close> returned and then \<^verbatim>\<open>stop\<close> returned for a running
  container, or \<^verbatim>\<open>remove\<close> returned for one that was not running.
\<close>

definition endStreams :: "nat \<Rightarrow> state \<Rightarrow> state" where
  "endStreams vmId st =
     st\<lparr>connections :=
          map (\<lambda>kv. if c_vmId (snd kv) = vmId \<and> attached (snd kv) \<and> \<not> stream_ended (snd kv)
                    then (fst kv, streamEnds (snd kv)) else kv)
            (connections st)\<rparr>"

definition returned :: "'a outcome \<Rightarrow> bool" where
  "returned r = (case r of Returned _ \<Rightarrow> True | Threw _ \<Rightarrow> False)"

definition cleanupStopsContainer :: "env \<Rightarrow> bool" where
  "cleanupStopsContainer e =
     (case inspectResult e of
        Threw _ \<Rightarrow> False
      | Returned info \<Rightarrow>
          if state_running info then returned (stopResult e) else returned (removeResult e))"

text \<open>
  One step of the system: a call of the service together with the stream events that
  the engine raises because of it, or one event of a session.
\<close>

fun step :: "state \<Rightarrow> op \<Rightarrow> state" where
  "step st (Provision e userId vmName opts) = snd (provisionVM e userId vmName opts st)"
| "step st (Start e vmId userId) = snd (startVM e vmId userId st)"
| "step st (Stop e vmId userId) =
     (case stopVM e vmId userId st of
        (Inl _, st') \<Rightarrow> st'
      | (Inr _, st') \<Rightarrow> if returned (stopResult e) then endStreams vmId st' else st')"
| "step st (Terminate e vmId userId) =
     (case terminateVM e vmId userId st of
        (Inl _, st') \<Rightarrow> st'
      | (Inr _, st') \<Rightarrow> if cleanupStopsContainer e then endStreams vmId st' else st')"
| "step st (StatusQuery e vmId userId) = snd (getVMStatus e vmId userId st)"
| "step st (ForceStop e cid) =
     (case forceStopContainer e cid st of
        (Inl _, st') \<Rightarrow> st'
      | (Inr _, st') \<Rightarrow>
          (case findByContainer cid st of
             None \<Rightarrow> st'
           | Some v \<Rightarrow> endStreams (vm_id v) st'))"
| "step st (ForceRemove e cid) =
     (case forceRemoveContainer e cid st of
        (Inl _, st') \<Rightarrow> st'
      | (Inr _, st') \<Rightarrow>
          (case findByContainer cid st of
             None \<Rightarrow> st'
           | Some v \<Rightarrow> endStreams (vm_id v) st'))"
| "step st (Connect e token vmIdParam) = snd (on_connection e token vmIdParam st)"
| "step st (Message key parsed) = handleMessage key parsed st"
| "step st (StreamData key chunk) = onSession key (on_stream_data chunk) st"
| "step st (StreamEnd key) = onSession key streamEnds st"
| "step st (StreamError key) = onSession key on_stream_error st"
| "step st (ChannelClose key) = on_ws_close key st"
| "step st (ChannelError key) = on_ws_error key st"
| "step st Sweep = sweep st"

definition run :: "op list \<Rightarrow> state \<Rightarrow> state" where
  "run ops st = foldl step st ops"

text \<open>
  Fixtures: an engine that answers every call (creating container \<open>cid\<close>, reporting it
  running) at time \<open>t\<close>, no options, and a fresh system with one registered user who
  holds \<open>c\<close> credits.
\<close>

definition okEnv :: "int \<Rightarrow> string \<Rightarrow> env" where
  "okEnv t cid =
     \<lparr>clock = t, dirResult = Returned (), imageResult = Returned (),
      createResult = Returned cid, startResult = Returned (), stopResult = Returned (),
      removeResult = Returned (),
      inspectResult = Returned \<lparr>state_running = True, network_ip = Some ''172.17.0.2''\<rparr>,
      execResult = Returned ()\<rparr>"

definition noOptions :: provision_options where
  "noOptions = \<lparr>opt_image = None, opt_memoryLimit = None, opt_cpuShares = None\<rparr>"

definition freshState :: "int \<Rightarrow> state" where
  "freshState c = \<lparr>vms = [], users = [1 \<mapsto> c], usedPorts = [], connections = []\<rparr>"

text \<open>
  More fixtures: an engine whose \<^verbatim>\<open>inspect\<close> fails with status 500, one whose
  \<^verbatim>\<open>stop\<close> fails with status 500 (the container keeps running), one whose \<^verbatim>\<open>start\<close>
  fails with status 500, the provisioning of VM \<open>A\<close> by user 1 at time 0 (container
  \<open>c1\<close>), and the record that it stores.
\<close>

definition inspectFails :: "int \<Rightarrow> string \<Rightarrow> env" where
  "inspectFails t cid = (okEnv t cid)\<lparr>inspectResult := Threw 500\<rparr>"

definition stopFails :: "int \<Rightarrow> string \<Rightarrow> env" where
  "stopFails t cid = (okEnv t cid)\<lparr>stopResult := Threw 500\<rparr>"

definition startFails :: "int \<Rightarrow> string \<Rightarrow> env" where
  "startFails t cid = (okEnv t cid)\<lparr>startResult := Threw 500\<rparr>"

definition provisionA :: op where
  "provisionA = Provision (okEnv 0 ''c1'') 1 ''A'' noOptions"

definition vmA :: vm where
  "vmA = \<lparr>vm_id = 0, ownerId = 1, containerId = ''c1'', name = ''A'', status = Running,
          ipAddress = Some ''172.17.0.2'', sshPort = 30000, image_name = ''ubuntu:22.04'',
          memoryLimit = 536870912, cpuShares = 512, lastStartedAt = Some 0,
          lastStoppedAt = None, totalRuntime = 0, creditsConsumed = 0\<rparr>"

text \<open>The ports held by the records that are not terminated.\<close>

definition heldPorts :: "state \<Rightarrow> int list" where
  "heldPorts st = map sshPort (filter (\<lambda>v. status v \<noteq> Terminated) (vms st))"

text \<open>
  The operations of a provision/terminate sequence, and the shape of the stored records
  that such sequences keep: identifiers count up from 0 in insertion order and no two
  records, terminated or not, share a port.
\<close>

definition provisionOrTerminate :: "op \<Rightarrow> bool" where
  "provisionOrTerminate x =
     (case x of Provision _ _ _ _ \<Rightarrow> True | Terminate _ _ _ \<Rightarrow> True | _ \<Rightarrow> False)"

definition recordsWellFormed :: "state \<Rightarrow> bool" where
  "recordsWellFormed st =
     (map vm_id (vms st) = [0..<length (vms st)] \<and> distinct (map sshPort (vms st)))"

section \<open>Auxiliary facts\<close>

lemma runtimeSeconds_div: "runtimeSeconds t t0 = (t - t0) div 1000"
  unfolding runtimeSeconds_def using floor_divide_of_int_eq [of "t - t0" 1000] by simp

lemma creditsUsed_div: "creditsUsed r = - ((- (r * 10)) div 3600)"
proof -
  have h: "real_of_int r / 3600 * real_of_int vmCostPerHour
      = real_of_int (r * 10) / real_of_int 3600"
    unfolding vmCostPerHour_def by simp
  have "creditsUsed r = \<lceil>real_of_int (r * 10) / real_of_int 3600\<rceil>"
    unfolding creditsUsed_def h ..
  also have "\<dots> = - \<lfloor>real_of_int (- (r * 10)) / real_of_int 3600\<rfloor>"
    unfolding ceiling_def by simp
  also have "\<dots> = - ((- (r * 10)) div 3600)"
    by (simp only: floor_divide_of_int_eq)
  finally show ?thesis .
qed

lemma nextFree_in: "port \<in> set ps \<Longrightarrow> nextFree ps port = nextFree ps (port + 1)"
  by simp

lemma nextFree_out: "port \<notin> set ps \<Longrightarrow> nextFree ps port = port"
  by simp

declare nextFree.simps [simp del]

text \<open>The equations that evaluate a concrete run.\<close>

lemmas eval_defs =
  run_def provisionVM_def provisionRun_def getNextAvailablePort_def addPort_def
  insertVM_def saveVM_def stopVM_def startVM_def billStop_def incCredits_def findOwned_def
  findByContainer_def rethrowUnless304_def okEnv_def noOptions_def freshState_def
  countsForQuota_def maxVMsPerUser_def vmCostPerHour_def baseSSHPort_def orString_def
  orNumber_def defaultImage_def defaultMemoryLimit_def runtimeSeconds_div creditsUsed_div
  nextFree_in nextFree_out terminateVM_def freePort_def getVMStatus_def
  forceStopContainer_def forceRemoveContainer_def on_connection_def attachToVM_def
  mapSet_def mapDelete_def newConnection_def handleMessage_def inspectFails_def
  provisionA_def vmA_def heldPorts_def openSessions_def whitespace_def trimName_def
  on_stream_data_def on_stream_end_def on_stream_error_def onSession_def streamEnds_def
  on_ws_close_def on_ws_error_def sweep_def endStreams_def returned_def
  cleanupStopsContainer_def stopFails_def startFails_def Let_def

lemma find_SomeD: "find P xs = Some x \<Longrightarrow> P x"
  by (induction xs) (auto split: if_splits)

lemma find_saveVM:
  assumes "find (\<lambda>w. vm_id w = vmId \<and> ownerId w = userId) xs = Some v"
    and "vm_id v' = vm_id v" and "ownerId v' = ownerId v"
  shows "find (\<lambda>w. vm_id w = vmId \<and> ownerId w = userId)
           (map (\<lambda>w. if vm_id w = vm_id v' then v' else w) xs) = Some v'"
  using assms
proof (induction xs)
  case Nil
  then show ?case by simp
next
  case (Cons x xs)
  have hit: "vm_id v = vmId \<and> ownerId v = userId"
    using Cons.prems(1) by (rule find_SomeD)
  show ?case
  proof (cases "vm_id x = vmId \<and> ownerId x = userId")
    case True
    then have "x = v" using Cons.prems(1) by simp
    then show ?thesis using hit Cons.prems by simp
  next
    case False
    then have "find (\<lambda>w. vm_id w = vmId \<and> ownerId w = userId) xs = Some v"
      using Cons.prems(1) by (simp split: if_splits)
    then show ?thesis using False hit Cons.IH Cons.prems by auto
  qed
qed

lemma findOwned_saveVM:
  assumes "findOwned vmId userId st = Some v" and "vms st' = vms st"
    and "vm_id v' = vm_id v" and "ownerId v' = ownerId v"
  shows "findOwned vmId userId (saveVM v' st') = Some v'"
  using assms find_saveVM [of vmId userId "vms st" v v']
  by (simp add: findOwned_def saveVM_def)

lemma stopVM_billed:
  assumes "findOwned vmId userId st = Some v" and "status v = Running"
    and "lastStartedAt v = Some t0" and "rethrowUnless304 (stopResult e) = None"
  shows "stopVM e vmId userId st =
           (Inr (v\<lparr>totalRuntime := totalRuntime v + runtimeSeconds (clock e) t0,
                   creditsConsumed :=
                     creditsConsumed v + creditsUsed (runtimeSeconds (clock e) t0),
                   status := Stopped, lastStoppedAt := Some (clock e)\<rparr>),
            saveVM (v\<lparr>totalRuntime := totalRuntime v + runtimeSeconds (clock e) t0,
                      creditsConsumed :=
                        creditsConsumed v + creditsUsed (runtimeSeconds (clock e) t0),
                      status := Stopped, lastStoppedAt := Some (clock e)\<rparr>)
              (incCredits userId (- creditsUsed (runtimeSeconds (clock e) t0)) st))"
  using assms by (simp add: stopVM_def billStop_def Let_def)

lemma vms_incCredits: "vms (incCredits userId d st) = vms st"
  by (simp add: incCredits_def split: option.splits)

lemma stopVM_unbilled:
  assumes "findOwned vmId userId st = Some v" and "status v = Running"
    and "lastStartedAt v = None" and "rethrowUnless304 (stopResult e) = None"
  shows "stopVM e vmId userId st =
           (Inr (v\<lparr>status := Stopped, lastStoppedAt := Some (clock e)\<rparr>),
            saveVM (v\<lparr>status := Stopped, lastStoppedAt := Some (clock e)\<rparr>) st)"
  using assms by (simp add: stopVM_def billStop_def Let_def)

lemma stopVM_adds_elapsed:
  assumes "findOwned vmId userId st = Some v" and "status v = Running"
    and "lastStartedAt v = Some t0" and "rethrowUnless304 (stopResult e) = None"
  shows "\<exists>v' st'. stopVM e vmId userId st = (Inr v', st')
      \<and> findOwned vmId userId st' = Some v'
      \<and> totalRuntime v' = totalRuntime v + \<lfloor>real_of_int (clock e - t0) / 1000\<rfloor>
      \<and> creditsConsumed v' = creditsConsumed v
           + \<lceil>real_of_int \<lfloor>real_of_int (clock e - t0) / 1000\<rfloor> / 3600
               * real_of_int vmCostPerHour\<rceil>"
proof -
  define secs where "secs = runtimeSeconds (clock e) t0"
  define v' where "v' = v\<lparr>totalRuntime := totalRuntime v + secs,
                   creditsConsumed := creditsConsumed v + creditsUsed secs,
                   status := Stopped, lastStoppedAt := Some (clock e)\<rparr>"
  define st1 where "st1 = incCredits userId (- creditsUsed secs) st"
  have run: "stopVM e vmId userId st = (Inr v', saveVM v' st1)"
    unfolding v'_def st1_def secs_def using assms by (rule stopVM_billed)
  have "vms st1 = vms st" by (simp add: st1_def vms_incCredits)
  then have "findOwned vmId userId (saveVM v' st1) = Some v'"
    using assms(1) by (simp add: findOwned_saveVM v'_def)
  moreover have "totalRuntime v' = totalRuntime v + secs"
    and "creditsConsumed v' = creditsConsumed v + creditsUsed secs"
    by (simp_all add: v'_def)
  ultimately show ?thesis
    using run unfolding secs_def runtimeSeconds_def creditsUsed_def by simp
qed

lemma set_foldl_addPort:
  "set (foldl (\<lambda>ps v. addPort (sshPort v) ps) ps0 xs) = set ps0 \<union> sshPort ` set xs"
  by (induction xs arbitrary: ps0) (auto simp: addPort_def)

lemma nextFree_notin: "nextFree ps port \<notin> set ps"
proof (induction ps port rule: nextFree.induct)
  case (1 ps port)
  then show ?case by (cases "port \<in> set ps") (simp_all add: nextFree_in nextFree_out)
qed

lemma nextFree_ge: "port \<le> nextFree ps port"
proof (induction ps port rule: nextFree.induct)
  case (1 ps port)
  then show ?case by (cases "port \<in> set ps") (simp_all add: nextFree_in nextFree_out)
qed

lemma nextFree_least: "port \<le> q \<Longrightarrow> q < nextFree ps port \<Longrightarrow> q \<in> set ps"
proof (induction ps port rule: nextFree.induct)
  case (1 ps port)
  show ?case
  proof (cases "port \<in> set ps")
    case True
    show ?thesis
    proof (cases "q = port")
      case True
      then show ?thesis using \<open>port \<in> set ps\<close> by simp
    next
      case False
      then have "port + 1 \<le> q" using "1.prems"(1) by simp
      moreover have "q < nextFree ps (port + 1)"
        using "1.prems"(2) True by (simp add: nextFree_in)
      ultimately show ?thesis using "1.IH" True by simp
    qed
  next
    case False
    then show ?thesis using "1.prems" by (simp add: nextFree_out)
  qed
qed

text \<open>
  Sequences of provisions and terminations keep the records well formed, so the records
  that are not terminated hold pairwise different ports.
\<close>

lemma find_Some_mem: "find P xs = Some x \<Longrightarrow> x \<in> set xs"
  by (induction xs) (auto split: if_splits)

lemma saveVM_wellFormed:
  assumes wf: "recordsWellFormed st" and mem: "v \<in> set (vms st)"
    and id: "vm_id v' = vm_id v" and port: "sshPort v' = sshPort v"
  shows "recordsWellFormed (saveVM v' st)"
proof -
  have "distinct (map vm_id (vms st))"
    using wf by (simp add: recordsWellFormed_def)
  then have inj: "inj_on vm_id (set (vms st))"
    by (simp add: distinct_map)
  have same: "w = v" if "w \<in> set (vms st)" and "vm_id w = vm_id v'" for w
    using inj that mem id by (auto dest: inj_onD)
  have ids: "map vm_id (vms (saveVM v' st)) = map vm_id (vms st)"
    by (auto simp: saveVM_def)
  have ports: "map sshPort (vms (saveVM v' st)) = map sshPort (vms st)"
    using same port by (auto simp: saveVM_def)
  have len: "length (vms (saveVM v' st)) = length (vms st)"
    by (simp add: saveVM_def)
  show ?thesis
    unfolding recordsWellFormed_def ids ports len
    using wf by (simp add: recordsWellFormed_def)
qed

lemma insertVM_wellFormed:
  assumes "insertVM v st = Inr st2" and "recordsWellFormed st" and "vm_id v = length (vms st)"
  shows "recordsWellFormed st2 \<and> v \<in> set (vms st2)"
proof -
  have none: "find (\<lambda>w. containerId w = containerId v \<or> sshPort w = sshPort v) (vms st) = None"
    using assms(1) by (simp add: insertVM_def split: option.splits if_splits)
  then have fresh: "sshPort v \<notin> sshPort ` set (vms st)"
    by (auto simp: find_None_iff)
  have st2: "vms st2 = vms st @ [v]"
    using assms(1) none by (auto simp: insertVM_def split: if_splits)
  show ?thesis
    using assms(2,3) fresh by (simp add: recordsWellFormed_def st2)
qed

lemma provisionRun_wellFormed:
  assumes "recordsWellFormed st"
  shows "recordsWellFormed (snd (provisionRun e userId vmName opts st))"
proof -
  obtain port st1 where g: "getNextAvailablePort st = (port, st1)"
    by (cases "getNextAvailablePort st")
  then have v1: "vms st1 = vms st"
    by (auto simp: getNextAvailablePort_def Let_def)
  then have wf1: "recordsWellFormed st1"
    using assms by (simp add: recordsWellFormed_def)
  show ?thesis
  proof (cases "imageResult e")
    case (Threw c)
    then show ?thesis using g wf1 by (simp add: provisionRun_def)
  next
    case (Returned u)
    note img = this
    show ?thesis
    proof (cases "createResult e")
      case (Threw c)
      then show ?thesis using g wf1 img by (simp add: provisionRun_def)
    next
      case (Returned cid)
      define v where "v = \<lparr>vm_id = length (vms st1), ownerId = userId, containerId = cid,
                         name = trimName vmName, status = Creating, ipAddress = None,
                         sshPort = port,
                         image_name = orString (opt_image opts) defaultImage,
                         memoryLimit = orNumber (opt_memoryLimit opts) defaultMemoryLimit,
                         cpuShares = orNumber (opt_cpuShares opts) 512,
                         lastStartedAt = None, lastStoppedAt = None,
                         totalRuntime = 0, creditsConsumed = 0\<rparr>"
      show ?thesis
      proof (cases "insertVM v st1")
        case (Inl err)
        then show ?thesis
          using g wf1 img Returned by (simp add: provisionRun_def v_def)
      next
        case (Inr st2)
        have "vm_id v = length (vms st1)" by (simp add: v_def)
        with Inr wf1 have wf2: "recordsWellFormed st2" and mem: "v \<in> set (vms st2)"
          using insertVM_wellFormed by blast+
        have "recordsWellFormed (saveVM (v\<lparr>status := Running, ipAddress := ip,
            lastStartedAt := Some t\<rparr>) st2)" for ip t
          using wf2 mem by (rule saveVM_wellFormed) simp_all
        then show ?thesis
          using g img Returned Inr wf2
          by (simp add: provisionRun_def v_def [symmetric] Let_def split: outcome.splits)
      qed
    qed
  qed
qed

lemma recordsWellFormed_endStreams:
  "recordsWellFormed (endStreams vmId st) = recordsWellFormed st"
  by (simp add: recordsWellFormed_def endStreams_def)

lemma step_wellFormed:
  assumes "recordsWellFormed st" and "provisionOrTerminate x"
  shows "recordsWellFormed (step st x)"
proof (cases x)
  case (Provision e userId vmName opts)
  then show ?thesis
    using assms(1) provisionRun_wellFormed [of st e userId vmName opts]
    by (simp add: provisionVM_def split: option.splits outcome.splits)
next
  case (Terminate e vmId userId)
  show ?thesis
  proof (cases "findOwned vmId userId st")
    case None
    then show ?thesis using assms(1) Terminate by (simp add: terminateVM_def)
  next
    case (Some v)
    then have mem: "v \<in> set (vms (freePort (sshPort v) st))"
      by (simp add: findOwned_def freePort_def find_Some_mem)
    have wf: "recordsWellFormed (freePort (sshPort v) st)"
      using assms(1) by (simp add: recordsWellFormed_def freePort_def)
    have "recordsWellFormed (saveVM (v\<lparr>status := Terminated\<rparr>) (freePort (sshPort v) st))"
      using saveVM_wellFormed [OF wf mem, of "v\<lparr>status := Terminated\<rparr>"] by simp
    then show ?thesis
      using Some Terminate by (simp add: terminateVM_def recordsWellFormed_endStreams)
  qed
qed (use assms(2) in \<open>simp_all add: provisionOrTerminate_def\<close>)

lemma run_wellFormed:
  "recordsWellFormed st \<Longrightarrow> list_all provisionOrTerminate ops \<Longrightarrow> recordsWellFormed (run ops st)"
  unfolding run_def
  by (induction ops arbitrary: st) (simp_all add: step_wellFormed)

lemma live_ports_distinct:
  assumes "recordsWellFormed st" and "list_all provisionOrTerminate ops"
  shows "distinct (heldPorts (run ops st))"
proof -
  have "distinct (map sshPort (vms (run ops st)))"
    using run_wellFormed [OF assms] by (simp add: recordsWellFormed_def)
  then show ?thesis
    unfolding heldPorts_def by (rule distinct_map_filter)
qed

lemma on_message_ignored:
  assumes "parsed = None \<or> (\<exists>m. parsed = Some m
             \<and> property ''type'' m \<noteq> Some (JStr ''input'')
             \<and> property ''type'' m \<noteq> Some (JStr ''resize'')
             \<and> property ''type'' m \<noteq> Some (JStr ''ping''))"
  shows "on_message parsed c = c"
  using assms by (auto simp: on_message_def split: option.splits json.splits)

section \<open>Credit metering\<close>

text \<open>
  Claim C1: every stop of a running VM leaves the owner's balance at
  \<open>max 0 (balance - \<lceil>elapsedSeconds / 3600 * hourlyRate\<rceil>)\<close>, never below zero.
  \<^verbatim>\<open>stopVM\<close> subtracts the charge with a plain \<^verbatim>\<open>$inc\<close> and has no floor, although the
  user schema declares \<^verbatim>\<open>credits\<close> with \<^verbatim>\<open>min: 0\<close> and the administrative credit
  route resets a negative balance to zero. A user with 10 credits provisions a VM and
  stops it two hours later: the charge is 20 and the balance becomes \<open>- 10\<close>, where the
  claim gives \<open>max 0 (10 - 20) = 0\<close>.
\<close>

theorem stop_billing_drives_balance_negative:
  "users (run [provisionA] (freshState 10)) 1 = Some 10
   \<and> creditsUsed (runtimeSeconds 7200000 0) = 20
   \<and> users (run [provisionA, Stop (okEnv 7200000 ''c1'') 0 1] (freshState 10)) 1 = Some (- 10)
   \<and> max 0 (10 - creditsUsed (runtimeSeconds 7200000 0)) = 0"
  by (simp add: eval_defs)

text \<open>
  Claim C5: with rate 10 and balance 100, provisioning charges nothing; a stop 1800
  seconds later charges 5 (balance 95, run time 1800, credits consumed 5); a restart and
  a stop 10 seconds later charges 1 (balance 94, run time 1810, credits consumed 6). In
  general a stop of a running VM whose start is stamped adds the whole elapsed seconds to
  the run time and \<open>\<lceil>seconds / 3600 * rate\<rceil>\<close> to the credits consumed.
\<close>

theorem billing_scenario_and_stop_rule:
  "(vmCostPerHour = 10
    \<and> users (run [provisionA] (freshState 100)) 1 = Some 100
    \<and> users (run [provisionA, Stop (okEnv 1800000 ''c1'') 0 1] (freshState 100)) 1 = Some 95
    \<and> map totalRuntime (vms (run [provisionA, Stop (okEnv 1800000 ''c1'') 0 1]
          (freshState 100))) = [1800]
    \<and> map creditsConsumed (vms (run [provisionA, Stop (okEnv 1800000 ''c1'') 0 1]
          (freshState 100))) = [5]
    \<and> users (run [provisionA, Stop (okEnv 1800000 ''c1'') 0 1,
          Start (okEnv 5000000 ''c1'') 0 1, Stop (okEnv 5010000 ''c1'') 0 1]
          (freshState 100)) 1 = Some 94
    \<and> map totalRuntime (vms (run [provisionA, Stop (okEnv 1800000 ''c1'') 0 1,
          Start (okEnv 5000000 ''c1'') 0 1, Stop (okEnv 5010000 ''c1'') 0 1]
          (freshState 100))) = [1810]
    \<and> map creditsConsumed (vms (run [provisionA, Stop (okEnv 1800000 ''c1'') 0 1,
          Start (okEnv 5000000 ''c1'') 0 1, Stop (okEnv 5010000 ''c1'') 0 1]
          (freshState 100))) = [6])
   \<and> (\<forall>e vmId userId st v t0.
        findOwned vmId userId st = Some v \<and> status v = Running
        \<and> lastStartedAt v = Some t0 \<and> rethrowUnless304 (stopResult e) = None
        \<longrightarrow> (\<exists>v' st'. stopVM e vmId userId st = (Inr v', st')
              \<and> findOwned vmId userId st' = Some v'
              \<and> totalRuntime v' = totalRuntime v + \<lfloor>real_of_int (clock e - t0) / 1000\<rfloor>
              \<and> creditsConsumed v' = creditsConsumed v
                   + \<lceil>real_of_int \<lfloor>real_of_int (clock e - t0) / 1000\<rfloor> / 3600
                       * real_of_int vmCostPerHour\<rceil>))"
proof (intro conjI allI impI)
  fix e :: env and vmId userId :: nat and st :: state and v :: vm and t0 :: int
  assume "findOwned vmId userId st = Some v \<and> status v = Running
        \<and> lastStartedAt v = Some t0 \<and> rethrowUnless304 (stopResult e) = None"
  then show "\<exists>v' st'. stopVM e vmId userId st = (Inr v', st')
              \<and> findOwned vmId userId st' = Some v'
              \<and> totalRuntime v' = totalRuntime v + \<lfloor>real_of_int (clock e - t0) / 1000\<rfloor>
              \<and> creditsConsumed v' = creditsConsumed v
                   + \<lceil>real_of_int \<lfloor>real_of_int (clock e - t0) / 1000\<rfloor> / 3600
                       * real_of_int vmCostPerHour\<rceil>"
    using stopVM_adds_elapsed [of vmId userId st v t0 e] by blast
qed (simp_all add: eval_defs)

theorem billing_scenario_and_stop_rule_witness:
  "(findOwned 0 1 (run [provisionA] (freshState 100)) = Some vmA \<and> status vmA = Running
    \<and> lastStartedAt vmA = Some 0
    \<and> rethrowUnless304 (stopResult (okEnv 1800000 ''c1'')) = None)
   \<and> (\<exists>v' st'. stopVM (okEnv 1800000 ''c1'') 0 1 (run [provisionA] (freshState 100))
                 = (Inr v', st')
         \<and> findOwned 0 1 st' = Some v'
         \<and> totalRuntime v' = 1800 \<and> creditsConsumed v' = 5)"
proof -
  have h: "findOwned 0 1 (run [provisionA] (freshState 100)) = Some vmA \<and> status vmA = Running
    \<and> lastStartedAt vmA = Some 0
    \<and> rethrowUnless304 (stopResult (okEnv 1800000 ''c1'')) = None"
    by (simp add: eval_defs)
  have c: "clock (okEnv 1800000 ''c1'') = 1800000" "totalRuntime vmA = 0"
    "creditsConsumed vmA = 0" "vmCostPerHour = 10"
    by (simp_all add: okEnv_def vmA_def vmCostPerHour_def)
  have f: "\<lfloor>real_of_int (1800000 - 0) / 1000\<rfloor> = 1800"
    using runtimeSeconds_div [of 1800000 0] by (simp add: runtimeSeconds_def)
  have g: "\<lceil>real_of_int 1800 / 3600 * real_of_int 10\<rceil> = 5"
    using creditsUsed_div [of 1800] by (simp add: creditsUsed_def vmCostPerHour_def)
  from billing_scenario_and_stop_rule [THEN conjunct2, rule_format, OF h]
  show ?thesis using h unfolding c f g by simp
qed

text \<open>
  Claim C10: a stop of a VM whose record is \<^verbatim>\<open>running\<close> without a
  \<^verbatim>\<open>lastStartedAt\<close> stamp bills nothing: run time, credits consumed and the balances
  stay as they are, the status becomes \<^verbatim>\<open>stopped\<close> and \<^verbatim>\<open>lastStoppedAt\<close> is stamped.
\<close>

theorem stop_without_start_stamp_bills_nothing:
  assumes "findOwned vmId userId st = Some v" and "status v = Running"
    and "lastStartedAt v = None" and "rethrowUnless304 (stopResult e) = None"
  shows "\<exists>v' st'. stopVM e vmId userId st = (Inr v', st')
      \<and> findOwned vmId userId st' = Some v'
      \<and> totalRuntime v' = totalRuntime v \<and> creditsConsumed v' = creditsConsumed v
      \<and> users st' = users st
      \<and> status v' = Stopped \<and> lastStoppedAt v' = Some (clock e)"
proof -
  let ?v = "v\<lparr>status := Stopped, lastStoppedAt := Some (clock e)\<rparr>"
  have "stopVM e vmId userId st = (Inr ?v, saveVM ?v st)"
    using assms by (rule stopVM_unbilled)
  moreover have "findOwned vmId userId (saveVM ?v st) = Some ?v"
    using assms(1) by (simp add: findOwned_saveVM)
  moreover have "users (saveVM ?v st) = users st"
    by (simp add: saveVM_def)
  ultimately show ?thesis by simp
qed

text \<open>
  The state of the witness is reached when the \<^verbatim>\<open>inspect\<close> call of a provisioning fails
  after the container has started (the record stays \<^verbatim>\<open>creating\<close>, unstamped) and a
  status query then finds the container running.
\<close>

theorem stop_without_start_stamp_bills_nothing_witness:
  "findOwned 0 1 (run [Provision (inspectFails 0 ''c1'') 1 ''A'' noOptions,
       StatusQuery (okEnv 5 ''c1'') 0 1] (freshState 100))
     = Some (vmA\<lparr>ipAddress := None, lastStartedAt := None\<rparr>)
   \<and> status (vmA\<lparr>ipAddress := None, lastStartedAt := None\<rparr>) = Running
   \<and> lastStartedAt (vmA\<lparr>ipAddress := None, lastStartedAt := None\<rparr>) = None
   \<and> rethrowUnless304 (stopResult (okEnv 9 ''c1'')) = None
   \<and> (\<exists>v' st'. stopVM (okEnv 9 ''c1'') 0 1
         (run [Provision (inspectFails 0 ''c1'') 1 ''A'' noOptions,
            StatusQuery (okEnv 5 ''c1'') 0 1] (freshState 100)) = (Inr v', st')
        \<and> findOwned 0 1 st' = Some v'
        \<and> totalRuntime v' = 0 \<and> creditsConsumed v' = 0
        \<and> users st' 1 = Some 100
        \<and> status v' = Stopped \<and> lastStoppedAt v' = Some 9)"
proof -
  let ?st = "run [Provision (inspectFails 0 ''c1'') 1 ''A'' noOptions,
       StatusQuery (okEnv 5 ''c1'') 0 1] (freshState 100)"
  let ?v = "vmA\<lparr>ipAddress := None, lastStartedAt := None\<rparr>"
  have h1: "findOwned 0 1 ?st = Some ?v"
    by (simp add: eval_defs)
  have h2: "status ?v = Running" and h3: "lastStartedAt ?v = None"
    by (simp_all add: vmA_def)
  have h4: "rethrowUnless304 (stopResult (okEnv 9 ''c1'')) = None"
    by (simp add: rethrowUnless304_def okEnv_def)
  have u: "users ?st 1 = Some 100"
    by (simp add: eval_defs)
  have c: "clock (okEnv 9 ''c1'') = 9" "totalRuntime ?v = 0" "creditsConsumed ?v = 0"
    by (simp_all add: okEnv_def vmA_def)
  from stop_without_start_stamp_bills_nothing [OF h1 h2 h3 h4]
  show ?thesis using h1 h2 h3 h4 u unfolding c by auto
qed


section \<open>Lifecycle\<close>

text \<open>
  Claim C2: a record whose status is \<^verbatim>\<open>terminated\<close> keeps that status under every
  later operation. \<^verbatim>\<open>startVM\<close> and \<^verbatim>\<open>getVMStatus\<close> guard the terminated status, but
  \<^verbatim>\<open>forceStopContainer\<close> writes \<^verbatim>\<open>stopped\<close> into whatever record has the container.
  \<^verbatim>\<open>terminateVM\<close> marks the record terminated even when its engine calls fail, so
  the container can outlive it: here the engine's \<^verbatim>\<open>stop\<close> fails during the
  termination and succeeds when the administrator force-stops the container, and the
  terminated record becomes \<^verbatim>\<open>stopped\<close> (and can then be started again).
\<close>

theorem force_stop_revives_terminated_record:
  "map status (vms (run [provisionA,
       Terminate ((okEnv 5 ''c1'')\<lparr>stopResult := Threw 500\<rparr>) 0 1] (freshState 100)))
     = [Terminated]
   \<and> map status (vms (run [provisionA,
       Terminate ((okEnv 5 ''c1'')\<lparr>stopResult := Threw 500\<rparr>) 0 1,
       ForceStop (okEnv 9 ''c1'') ''c1''] (freshState 100)))
     = [Stopped]
   \<and> map status (vms (run [provisionA,
       Terminate ((okEnv 5 ''c1'')\<lparr>stopResult := Threw 500\<rparr>) 0 1,
       ForceStop (okEnv 9 ''c1'') ''c1'', Start (okEnv 12 ''c1'') 0 1] (freshState 100)))
     = [Running]"
  by (simp add: eval_defs)

text \<open>
  Claim C6: \<^verbatim>\<open>start\<close> fails with \<open>InvalidState\<close> for every owned VM that is not
  \<^verbatim>\<open>stopped\<close>, \<^verbatim>\<open>stop\<close> fails with \<open>InvalidState\<close> for every owned VM that is not
  \<^verbatim>\<open>running\<close>, and the failing call changes nothing. \<^verbatim>\<open>startVM\<close> refuses only
  \<^verbatim>\<open>running\<close> and \<^verbatim>\<open>terminated\<close>: a record in status \<^verbatim>\<open>error\<close> or
  \<^verbatim>\<open>creating\<close> is started. As amended: \<^verbatim>\<open>start\<close> fails with \<open>InvalidState\<close>, changing
  nothing, for every owned VM that is \<^verbatim>\<open>running\<close> or \<^verbatim>\<open>terminated\<close>; an owned VM in
  status \<^verbatim>\<open>stopped\<close>, \<^verbatim>\<open>creating\<close> or \<^verbatim>\<open>error\<close> passes this check, so its start
  never fails with \<open>InvalidState\<close>, and it is stored as \<^verbatim>\<open>running\<close> when the owner
  holds the hourly rate, the engine's \<^verbatim>\<open>start\<close> returns or answers 304 and its
  \<^verbatim>\<open>inspect\<close> returns; \<^verbatim>\<open>stop\<close> fails with \<open>InvalidState\<close>, changing nothing, for
  every owned VM that is not \<^verbatim>\<open>running\<close>.
\<close>

theorem start_stop_invalid_state:
  assumes "findOwned vmId userId st = Some v"
  shows "(status v = Running \<longrightarrow> startVM e vmId userId st = (Inl AlreadyRunning, st))
       \<and> (status v = Terminated
            \<longrightarrow> startVM e vmId userId st = (Inl CannotStartTerminated, st))
       \<and> (status v \<noteq> Running \<longrightarrow> stopVM e vmId userId st = (Inl NotRunning, st))
       \<and> invalidState AlreadyRunning \<and> invalidState CannotStartTerminated
       \<and> invalidState NotRunning
       \<and> (status v = Stopped \<or> status v = Creating \<or> status v = Error
            \<longrightarrow> (case fst (startVM e vmId userId st) of
                   Inl err \<Rightarrow> \<not> invalidState err
                 | Inr v' \<Rightarrow> status v' = Running))
       \<and> ((status v = Stopped \<or> status v = Creating \<or> status v = Error)
            \<and> users st userId = Some c \<and> vmCostPerHour \<le> c
            \<and> rethrowUnless304 (startResult e) = None \<and> inspectResult e = Returned info
            \<longrightarrow> startVM e vmId userId st
                 = (Inr (v\<lparr>status := Running, ipAddress := network_ip info,
                           lastStartedAt := Some (clock e)\<rparr>),
                    saveVM (v\<lparr>status := Running, ipAddress := network_ip info,
                              lastStartedAt := Some (clock e)\<rparr>) st))"
proof -
  have fails: "(status v = Running \<longrightarrow> startVM e vmId userId st = (Inl AlreadyRunning, st))
       \<and> (status v = Terminated
            \<longrightarrow> startVM e vmId userId st = (Inl CannotStartTerminated, st))
       \<and> (status v \<noteq> Running \<longrightarrow> stopVM e vmId userId st = (Inl NotRunning, st))
       \<and> invalidState AlreadyRunning \<and> invalidState CannotStartTerminated
       \<and> invalidState NotRunning"
    using assms by (simp add: startVM_def stopVM_def invalidState_def)
  have passes: "case fst (startVM e vmId userId st) of
                   Inl err \<Rightarrow> \<not> invalidState err
                 | Inr v' \<Rightarrow> status v' = Running"
    if "status v = Stopped \<or> status v = Creating \<or> status v = Error"
    using assms that
    by (auto simp: startVM_def invalidState_def Let_def
          split: option.splits outcome.splits)
  have starts: "startVM e vmId userId st
                 = (Inr (v\<lparr>status := Running, ipAddress := network_ip info,
                           lastStartedAt := Some (clock e)\<rparr>),
                    saveVM (v\<lparr>status := Running, ipAddress := network_ip info,
                              lastStartedAt := Some (clock e)\<rparr>) st)"
    if "status v = Stopped \<or> status v = Creating \<or> status v = Error"
      and "users st userId = Some c" and "vmCostPerHour \<le> c"
      and "rethrowUnless304 (startResult e) = None" and "inspectResult e = Returned info"
    using assms that by (auto simp: startVM_def Let_def)
  show ?thesis
    using fails passes starts by blast
qed

text \<open>
  The witness: a running record, a terminated record, and a record left in status
  \<^verbatim>\<open>creating\<close> by a provisioning whose \<^verbatim>\<open>container.start()\<close> threw.
\<close>

theorem start_stop_invalid_state_witness:
  "findOwned 0 1 (run [provisionA] (freshState 100)) = Some vmA
   \<and> status vmA = Running
   \<and> startVM (okEnv 7 ''c1'') 0 1 (run [provisionA] (freshState 100))
       = (Inl AlreadyRunning, run [provisionA] (freshState 100))
   \<and> findOwned 0 1 (run [provisionA, Terminate (okEnv 5 ''c1'') 0 1] (freshState 100))
       = Some (vmA\<lparr>status := Terminated\<rparr>)
   \<and> status (vmA\<lparr>status := Terminated\<rparr>) = Terminated
   \<and> startVM (okEnv 7 ''c1'') 0 1
         (run [provisionA, Terminate (okEnv 5 ''c1'') 0 1] (freshState 100))
       = (Inl CannotStartTerminated,
          run [provisionA, Terminate (okEnv 5 ''c1'') 0 1] (freshState 100))
   \<and> stopVM (okEnv 7 ''c1'') 0 1
         (run [provisionA, Terminate (okEnv 5 ''c1'') 0 1] (freshState 100))
       = (Inl NotRunning,
          run [provisionA, Terminate (okEnv 5 ''c1'') 0 1] (freshState 100))
   \<and> findOwned 0 1 (run [Provision (startFails 0 ''c1'') 1 ''A'' noOptions] (freshState 100))
       = Some (vmA\<lparr>status := Creating, ipAddress := None, lastStartedAt := None\<rparr>)
   \<and> status (vmA\<lparr>status := Creating, ipAddress := None, lastStartedAt := None\<rparr>) = Creating
   \<and> users (run [Provision (startFails 0 ''c1'') 1 ''A'' noOptions] (freshState 100)) 1
       = Some 100
   \<and> vmCostPerHour \<le> 100
   \<and> rethrowUnless304 (startResult (okEnv 7 ''c1'')) = None
   \<and> fst (startVM (okEnv 7 ''c1'') 0 1
         (run [Provision (startFails 0 ''c1'') 1 ''A'' noOptions] (freshState 100)))
       = Inr (vmA\<lparr>lastStartedAt := Some 7\<rparr>)"
proof -
  let ?created = "run [Provision (startFails 0 ''c1'') 1 ''A'' noOptions] (freshState 100)"
  let ?info = "\<lparr>state_running = True, network_ip = Some ''172.17.0.2''\<rparr>"
  have h1: "findOwned 0 1 (run [provisionA] (freshState 100)) = Some vmA"
    by (simp add: eval_defs)
  have h2: "findOwned 0 1 (run [provisionA, Terminate (okEnv 5 ''c1'') 0 1] (freshState 100))
       = Some (vmA\<lparr>status := Terminated\<rparr>)"
    by (simp add: eval_defs)
  have h3: "findOwned 0 1 ?created
       = Some (vmA\<lparr>status := Creating, ipAddress := None, lastStartedAt := None\<rparr>)"
    by (simp add: eval_defs)
  have s: "status vmA = Running" "status (vmA\<lparr>status := Terminated\<rparr>) = Terminated"
    "status (vmA\<lparr>status := Creating, ipAddress := None, lastStartedAt := None\<rparr>) = Creating"
    by (simp_all add: vmA_def)
  have g: "(status (vmA\<lparr>status := Creating, ipAddress := None, lastStartedAt := None\<rparr>)
             = Stopped
           \<or> status (vmA\<lparr>status := Creating, ipAddress := None, lastStartedAt := None\<rparr>)
             = Creating
           \<or> status (vmA\<lparr>status := Creating, ipAddress := None, lastStartedAt := None\<rparr>)
             = Error)
     \<and> users ?created 1 = Some 100 \<and> vmCostPerHour \<le> 100
     \<and> rethrowUnless304 (startResult (okEnv 7 ''c1'')) = None
     \<and> inspectResult (okEnv 7 ''c1'') = Returned ?info"
    by (simp add: eval_defs)
  have started: "fst (startVM (okEnv 7 ''c1'') 0 1 ?created) = Inr (vmA\<lparr>lastStartedAt := Some 7\<rparr>)"
    using start_stop_invalid_state
        [OF h3, where e = "okEnv 7 ''c1''" and c = 100 and info = ?info,
          THEN conjunct2, THEN conjunct2, THEN conjunct2, THEN conjunct2, THEN conjunct2,
          THEN conjunct2, THEN conjunct2, rule_format, OF g]
    by (simp add: vmA_def okEnv_def)
  show ?thesis
    using start_stop_invalid_state [OF h1, of "okEnv 7 ''c1''"]
      start_stop_invalid_state [OF h2, of "okEnv 7 ''c1''"] h1 h2 h3 s g started
    by simp
qed

text \<open>
  The claim fails on a record in status \<^verbatim>\<open>error\<close>, which a status query writes when
  the engine's \<^verbatim>\<open>inspect\<close> fails, and on a record in status \<^verbatim>\<open>creating\<close>, which a
  provisioning leaves when \<^verbatim>\<open>container.start()\<close> throws: the record is owned, its
  status is not \<^verbatim>\<open>stopped\<close>, and \<^verbatim>\<open>startVM\<close> succeeds and stores it as \<^verbatim>\<open>running\<close>.
\<close>

theorem start_from_error_succeeds:
  "map_option status (findOwned 0 1
       (run [provisionA, StatusQuery (inspectFails 5 ''c1'') 0 1] (freshState 100)))
     = Some Error
   \<and> map_sum invalidState status (fst (startVM (okEnv 7 ''c1'') 0 1
       (run [provisionA, StatusQuery (inspectFails 5 ''c1'') 0 1] (freshState 100))))
     = Inr Running
   \<and> map status (vms (snd (startVM (okEnv 7 ''c1'') 0 1
       (run [provisionA, StatusQuery (inspectFails 5 ''c1'') 0 1] (freshState 100)))))
     = [Running]
   \<and> map_option status (findOwned 0 1
       (run [Provision (startFails 0 ''c1'') 1 ''A'' noOptions] (freshState 100)))
     = Some Creating
   \<and> map_sum invalidState status (fst (startVM (okEnv 7 ''c1'') 0 1
       (run [Provision (startFails 0 ''c1'') 1 ''A'' noOptions] (freshState 100))))
     = Inr Running
   \<and> map status (vms (snd (startVM (okEnv 7 ''c1'') 0 1
       (run [Provision (startFails 0 ''c1'') 1 ''A'' noOptions] (freshState 100)))))
     = [Running]"
  by (simp add: eval_defs)

text \<open>
  Claim C7: provisioning fails with \<open>QuotaExceeded\<close> whenever the owner's records that
  are not terminated have reached the quota, and with \<open>InsufficientCredits\<close> whenever the
  balance is below the hourly rate; no record is created and no port is reserved. The
  quota of \<^verbatim>\<open>provisionVM\<close> counts the records whose status is \<^verbatim>\<open>running\<close>,
  \<^verbatim>\<open>stopped\<close> or \<^verbatim>\<open>creating\<close>, so records in status \<^verbatim>\<open>error\<close> do not count, and the
  quota is checked before the balance. As amended: provisioning fails with
  \<open>QuotaExceeded\<close> whenever the owner's records in status running, stopped or creating
  have reached the quota, and with \<open>InsufficientCredits\<close> whenever they have not and the
  owner's balance is below the hourly rate; in both cases the state is unchanged.
\<close>

theorem provision_quota_and_credit_gates:
  "(maxVMsPerUser \<le> length (filter (countsForQuota userId) (vms st))
      \<longrightarrow> provisionVM e userId vmName opts st = (Inl VMLimitReached, st))
   \<and> (length (filter (countsForQuota userId) (vms st)) < maxVMsPerUser
        \<and> users st userId = Some c \<and> c < vmCostPerHour
      \<longrightarrow> provisionVM e userId vmName opts st = (Inl InsufficientCreditsToProvision, st))"
  by (simp add: provisionVM_def)

theorem provision_quota_and_credit_gates_witness:
  "maxVMsPerUser \<le> length (filter (countsForQuota 1) (vms (run [provisionA,
       Provision (okEnv 2 ''c2'') 1 ''B'' noOptions,
       Provision (okEnv 4 ''c3'') 1 ''C'' noOptions] (freshState 100))))
   \<and> provisionVM (okEnv 7 ''c4'') 1 ''D'' noOptions (run [provisionA,
       Provision (okEnv 2 ''c2'') 1 ''B'' noOptions,
       Provision (okEnv 4 ''c3'') 1 ''C'' noOptions] (freshState 100))
     = (Inl VMLimitReached, run [provisionA,
       Provision (okEnv 2 ''c2'') 1 ''B'' noOptions,
       Provision (okEnv 4 ''c3'') 1 ''C'' noOptions] (freshState 100))
   \<and> length (filter (countsForQuota 1) (vms (freshState 9))) < maxVMsPerUser
   \<and> users (freshState 9) 1 = Some 9 \<and> 9 < vmCostPerHour
   \<and> provisionVM (okEnv 7 ''c4'') 1 ''D'' noOptions (freshState 9)
     = (Inl InsufficientCreditsToProvision, freshState 9)"
proof -
  let ?st = "run [provisionA, Provision (okEnv 2 ''c2'') 1 ''B'' noOptions,
       Provision (okEnv 4 ''c3'') 1 ''C'' noOptions] (freshState 100)"
  have h1: "maxVMsPerUser \<le> length (filter (countsForQuota 1) (vms ?st))"
    by (simp add: eval_defs)
  have h2: "length (filter (countsForQuota 1) (vms (freshState 9))) < maxVMsPerUser
     \<and> users (freshState 9) 1 = Some 9 \<and> 9 < vmCostPerHour"
    by (simp add: eval_defs)
  show ?thesis
    using provision_quota_and_credit_gates
        [where userId = 1 and st = ?st and e = "okEnv 7 ''c4''" and vmName = "''D''"
          and opts = noOptions and c = 9, THEN conjunct1, rule_format, OF h1]
      provision_quota_and_credit_gates
        [where userId = 1 and st = "freshState 9" and e = "okEnv 7 ''c4''"
          and vmName = "''D''" and opts = noOptions and c = 9, THEN conjunct2,
          rule_format, OF h2]
      h1 h2
    by simp
qed

text \<open>
  The claim fails for an owner with three records in status \<^verbatim>\<open>error\<close>: three records
  that are not terminated reach the quota of 3, yet a fourth VM is provisioned and
  gets a port.
\<close>

theorem provision_past_quota_with_error_records:
  "map status (vms (run [provisionA, StatusQuery (inspectFails 1 ''c1'') 0 1,
       Provision (okEnv 2 ''c2'') 1 ''B'' noOptions, StatusQuery (inspectFails 3 ''c2'') 1 1,
       Provision (okEnv 4 ''c3'') 1 ''C'' noOptions, StatusQuery (inspectFails 5 ''c3'') 2 1]
       (freshState 100))) = [Error, Error, Error]
   \<and> map ownerId (vms (run [provisionA, StatusQuery (inspectFails 1 ''c1'') 0 1,
       Provision (okEnv 2 ''c2'') 1 ''B'' noOptions, StatusQuery (inspectFails 3 ''c2'') 1 1,
       Provision (okEnv 4 ''c3'') 1 ''C'' noOptions, StatusQuery (inspectFails 5 ''c3'') 2 1]
       (freshState 100))) = [1, 1, 1]
   \<and> maxVMsPerUser = 3
   \<and> map_sum id status (fst (provisionVM (okEnv 7 ''c4'') 1 ''D'' noOptions
       (run [provisionA, StatusQuery (inspectFails 1 ''c1'') 0 1,
       Provision (okEnv 2 ''c2'') 1 ''B'' noOptions, StatusQuery (inspectFails 3 ''c2'') 1 1,
       Provision (okEnv 4 ''c3'') 1 ''C'' noOptions, StatusQuery (inspectFails 5 ''c3'') 2 1]
       (freshState 100)))) = Inr Running
   \<and> map sshPort (vms (snd (provisionVM (okEnv 7 ''c4'') 1 ''D'' noOptions
       (run [provisionA, StatusQuery (inspectFails 1 ''c1'') 0 1,
       Provision (okEnv 2 ''c2'') 1 ''B'' noOptions, StatusQuery (inspectFails 3 ''c2'') 1 1,
       Provision (okEnv 4 ''c3'') 1 ''C'' noOptions, StatusQuery (inspectFails 5 ''c3'') 2 1]
       (freshState 100))))) = [30000, 30001, 30002, 30003]"
  by (simp add: eval_defs)


section \<open>Ports\<close>

text \<open>
  Claim C3: over every sequence of provisions and terminations no two records that are
  not terminated hold the same port, and the port of a terminated VM becomes assignable
  again to a later provision. \<^verbatim>\<open>terminateVM\<close> frees the port and the allocator hands it
  out again, but the terminated record stays in the collection and the schema declares
  \<^verbatim>\<open>sshPort\<close> unique over all records: the insert of the new record is rejected, the
  provision fails, and the port stays in the in-process set without a record.
\<close>

theorem terminated_port_rejected_on_reuse:
  "map (\<lambda>v. (status v, sshPort v))
       (vms (run [provisionA, Terminate (okEnv 5 ''c1'') 0 1] (freshState 100)))
     = [(Terminated, 30000)]
   \<and> usedPorts (run [provisionA, Terminate (okEnv 5 ''c1'') 0 1] (freshState 100)) = []
   \<and> fst (getNextAvailablePort
       (run [provisionA, Terminate (okEnv 5 ''c1'') 0 1] (freshState 100))) = 30000
   \<and> fst (provisionVM (okEnv 7 ''c2'') 1 ''B'' noOptions
       (run [provisionA, Terminate (okEnv 5 ''c1'') 0 1] (freshState 100)))
     = Inl DuplicateKey
   \<and> map (\<lambda>v. (status v, sshPort v))
       (vms (run [provisionA, Terminate (okEnv 5 ''c1'') 0 1,
          Provision (okEnv 7 ''c2'') 1 ''B'' noOptions] (freshState 100)))
     = [(Terminated, 30000)]
   \<and> usedPorts (run [provisionA, Terminate (okEnv 5 ''c1'') 0 1,
          Provision (okEnv 7 ''c2'') 1 ''B'' noOptions] (freshState 100)) = [30000]
   \<and> map (\<lambda>v. (status v, sshPort v))
       (vms (run [provisionA, Terminate (okEnv 5 ''c1'') 0 1,
          Provision (okEnv 7 ''c2'') 1 ''B'' noOptions,
          Provision (okEnv 8 ''c3'') 1 ''B'' noOptions] (freshState 100)))
     = [(Terminated, 30000), (Running, 30001)]"
  by (simp add: eval_defs)

text \<open>
  Claim C8: \<^verbatim>\<open>reserve\<close> returns the lowest port of the configured range that no record
  other than a terminated one holds, and fails with \<open>ExhaustedError\<close> when the range is
  full. The configuration gives the range a lower bound only, and the allocator also
  skips the ports of its in-process set. As amended: \<^verbatim>\<open>getNextAvailablePort\<close> always
  returns; its port is the lowest one from \<^verbatim>\<open>baseSSHPort\<close> upwards that is neither in
  the in-process set nor held by a record that is not terminated; it adds that port and
  the held ports to the in-process set and leaves the records as they are.
\<close>

theorem reserve_lowest_unreserved_port:
  "baseSSHPort \<le> fst (getNextAvailablePort st)
   \<and> fst (getNextAvailablePort st) \<notin> set (usedPorts st) \<union> set (heldPorts st)
   \<and> (\<forall>q. baseSSHPort \<le> q \<and> q < fst (getNextAvailablePort st)
          \<longrightarrow> q \<in> set (usedPorts st) \<union> set (heldPorts st))
   \<and> set (usedPorts (snd (getNextAvailablePort st)))
        = insert (fst (getNextAvailablePort st)) (set (usedPorts st) \<union> set (heldPorts st))
   \<and> vms (snd (getNextAvailablePort st)) = vms st"
proof -
  define used where
    "used = foldl (\<lambda>ps v. addPort (sshPort v) ps) (usedPorts st)
              (filter (\<lambda>v. status v \<noteq> Terminated) (vms st))"
  have used: "set used = set (usedPorts st) \<union> set (heldPorts st)"
    by (simp add: used_def set_foldl_addPort heldPorts_def)
  have res: "getNextAvailablePort st
      = (nextFree used baseSSHPort, st\<lparr>usedPorts := addPort (nextFree used baseSSHPort) used\<rparr>)"
    by (simp add: getNextAvailablePort_def used_def Let_def)
  have "baseSSHPort \<le> nextFree used baseSSHPort" by (rule nextFree_ge)
  moreover have "nextFree used baseSSHPort \<notin> set used" by (rule nextFree_notin)
  moreover have "\<forall>q. baseSSHPort \<le> q \<and> q < nextFree used baseSSHPort \<longrightarrow> q \<in> set used"
    using nextFree_least by blast
  moreover have "set (addPort (nextFree used baseSSHPort) used)
      = insert (nextFree used baseSSHPort) (set used)"
    by (auto simp: addPort_def)
  ultimately show ?thesis
    unfolding res used by simp
qed

theorem reserve_lowest_unreserved_port_witness:
  "baseSSHPort \<le> 30000
   \<and> 30000 < fst (getNextAvailablePort (run [provisionA] (freshState 100)))
   \<and> 30000 \<in> set (usedPorts (run [provisionA] (freshState 100)))
               \<union> set (heldPorts (run [provisionA] (freshState 100)))
   \<and> fst (getNextAvailablePort (run [provisionA] (freshState 100))) = 30001"
proof -
  have h: "baseSSHPort \<le> 30000
      \<and> 30000 < fst (getNextAvailablePort (run [provisionA] (freshState 100)))"
    by (simp add: eval_defs)
  have v: "fst (getNextAvailablePort (run [provisionA] (freshState 100))) = 30001"
    by (simp add: eval_defs)
  from reserve_lowest_unreserved_port [of "run [provisionA] (freshState 100)"]
  have "\<forall>q. baseSSHPort \<le> q
          \<and> q < fst (getNextAvailablePort (run [provisionA] (freshState 100)))
        \<longrightarrow> q \<in> set (usedPorts (run [provisionA] (freshState 100)))
                \<union> set (heldPorts (run [provisionA] (freshState 100)))"
    by blast
  from this [rule_format, OF h] show ?thesis using h v by blast
qed

text \<open>
  The claim fails after a provision whose image cannot be pulled: the port reserved for
  it stays in the in-process set although no record was stored, and the next
  reservation returns 30001 while 30000, the lowest port of the range, is held by no
  record.
\<close>

theorem reserve_skips_leaked_port:
  "vms (run [Provision ((okEnv 0 ''c1'')\<lparr>imageResult := Threw 404\<rparr>) 1 ''A'' noOptions]
       (freshState 100)) = []
   \<and> heldPorts (run [Provision ((okEnv 0 ''c1'')\<lparr>imageResult := Threw 404\<rparr>) 1 ''A''
       noOptions] (freshState 100)) = []
   \<and> baseSSHPort = 30000
   \<and> fst (getNextAvailablePort
       (run [Provision ((okEnv 0 ''c1'')\<lparr>imageResult := Threw 404\<rparr>) 1 ''A'' noOptions]
       (freshState 100))) = 30001"
  by (simp add: eval_defs)

section \<open>Terminal sessions and termination\<close>

text \<open>
  Claim C4: after \<^verbatim>\<open>terminate\<close> completes on an existing record, no terminal session
  of that VM remains open. \<^verbatim>\<open>closeVMConnections\<close> exists for this and nothing calls it:
  \<^verbatim>\<open>terminateVM\<close> leaves the session map as it is. When its clean-up stops the
  container, the engine ends the stream and the session's own handlers close the
  channel. When the clean-up fails (here the engine's \<^verbatim>\<open>stop\<close> throws, so the
  container is neither stopped nor removed) the record is stored as terminated all the
  same, no stream ends, and the session stays in the map with its channel open and its
  stream live.
\<close>

theorem failed_cleanup_terminate_keeps_session_open:
  "map status (vms (run [provisionA, Connect (okEnv 3 ''c1'') (Some (Returned 1)) (Some 0),
       Terminate (stopFails 5 ''c1'') 0 1] (freshState 100))) = [Terminated]
   \<and> fst (terminateVM (stopFails 5 ''c1'') 0 1
       (run [provisionA, Connect (okEnv 3 ''c1'') (Some (Returned 1)) (Some 0)]
          (freshState 100))) = Inr ()
   \<and> map fst (openSessions 0 (run [provisionA,
       Connect (okEnv 3 ''c1'') (Some (Returned 1)) (Some 0),
       Terminate (stopFails 5 ''c1'') 0 1] (freshState 100))) = [(1, 0, 3)]
   \<and> map (\<lambda>kv. (c_vmId (snd kv), ws_readyState (snd kv), attached (snd kv),
                stream_ended (snd kv), ws_sent (snd kv)))
       (connections (run [provisionA,
          Connect (okEnv 3 ''c1'') (Some (Returned 1)) (Some 0),
          Terminate (stopFails 5 ''c1'') 0 1] (freshState 100)))
     = [(0, Open, True, False, [Connected])]
   \<and> concat (map (\<lambda>kv. ws_sent (snd kv))
       (connections (run [provisionA,
          Connect (okEnv 3 ''c1'') (Some (Returned 1)) (Some 0),
          Terminate (stopFails 5 ''c1'') 0 1, StreamData (1, 0, 3) ''x''] (freshState 100))))
     = [Connected, Output ''x'']
   \<and> openSessions 0 (closeVMConnections 0 (run [provisionA,
       Connect (okEnv 3 ''c1'') (Some (Returned 1)) (Some 0),
       Terminate (stopFails 5 ''c1'') 0 1] (freshState 100))) = []
   \<and> map (\<lambda>kv. (ws_readyState (snd kv), stream_ended (snd kv), ws_sent (snd kv)))
       (connections (run [provisionA,
          Connect (okEnv 3 ''c1'') (Some (Returned 1)) (Some 0),
          Terminate (okEnv 5 ''c1'') 0 1] (freshState 100)))
     = [(Closing, True, [Connected, Disconnect])]
   \<and> connections (run [provisionA,
          Connect (okEnv 3 ''c1'') (Some (Returned 1)) (Some 0),
          Terminate (okEnv 5 ''c1'') 0 1, ChannelClose (1, 0, 3)] (freshState 100)) = []"
  by (simp add: eval_defs closeVMConnections_def)

text \<open>
  Claim C9: an inbound message that is not valid JSON, or whose type is none of
  \<^verbatim>\<open>input\<close>, \<^verbatim>\<open>resize\<close>, \<^verbatim>\<open>ping\<close>, is ignored: the session entry, the channel and
  the stream stay as they are and no frame is sent.
\<close>

theorem unknown_message_ignored:
  assumes "parsed = None \<or> (\<exists>m. parsed = Some m
             \<and> property ''type'' m \<noteq> Some (JStr ''input'')
             \<and> property ''type'' m \<noteq> Some (JStr ''resize'')
             \<and> property ''type'' m \<noteq> Some (JStr ''ping''))"
  shows "on_message parsed c = c \<and> handleMessage key parsed st = st"
proof -
  have m: "\<And>c. on_message parsed c = c"
    using assms by (rule on_message_ignored)
  have "map (\<lambda>kv. if fst kv = key then (fst kv, on_message parsed (snd kv)) else kv) xs = xs"
    for xs :: "((nat \<times> nat \<times> int) \<times> terminal_connection) list"
    by (induction xs) (auto simp: m)
  then show ?thesis by (simp add: handleMessage_def m)
qed

theorem unknown_message_ignored_witness:
  "property ''type'' (JObj [(''type'', JStr ''noop'')]) \<noteq> Some (JStr ''input'')
   \<and> property ''type'' (JObj [(''type'', JStr ''noop'')]) \<noteq> Some (JStr ''resize'')
   \<and> property ''type'' (JObj [(''type'', JStr ''noop'')]) \<noteq> Some (JStr ''ping'')
   \<and> on_message (Some (JObj [(''type'', JStr ''noop'')])) (newConnection 1 0)
      = newConnection 1 0
   \<and> on_message None (newConnection 1 0) = newConnection 1 0
   \<and> map fst (connections (run [provisionA,
        Connect (okEnv 3 ''c1'') (Some (Returned 1)) (Some 0)] (freshState 100))) = [(1, 0, 3)]
   \<and> handleMessage (1, 0, 3) (Some (JObj [(''type'', JStr ''noop'')]))
        (run [provisionA, Connect (okEnv 3 ''c1'') (Some (Returned 1)) (Some 0)]
           (freshState 100))
      = run [provisionA, Connect (okEnv 3 ''c1'') (Some (Returned 1)) (Some 0)]
           (freshState 100)
   \<and> handleMessage (1, 0, 3) None
        (run [provisionA, Connect (okEnv 3 ''c1'') (Some (Returned 1)) (Some 0)]
           (freshState 100))
      = run [provisionA, Connect (okEnv 3 ''c1'') (Some (Returned 1)) (Some 0)]
           (freshState 100)"
proof -
  let ?m = "JObj [(''type'', JStr ''noop'')]"
  let ?st = "run [provisionA, Connect (okEnv 3 ''c1'') (Some (Returned 1)) (Some 0)]
           (freshState 100)"
  have p: "property ''type'' ?m \<noteq> Some (JStr ''input'')
      \<and> property ''type'' ?m \<noteq> Some (JStr ''resize'')
      \<and> property ''type'' ?m \<noteq> Some (JStr ''ping'')"
    by (simp add: property_def)
  then have h1: "Some ?m = None \<or> (\<exists>m. Some ?m = Some m
             \<and> property ''type'' m \<noteq> Some (JStr ''input'')
             \<and> property ''type'' m \<noteq> Some (JStr ''resize'')
             \<and> property ''type'' m \<noteq> Some (JStr ''ping''))"
    by blast
  have h2: "(None :: json option) = None \<or> (\<exists>m. None = Some m
             \<and> property ''type'' m \<noteq> Some (JStr ''input'')
             \<and> property ''type'' m \<noteq> Some (JStr ''resize'')
             \<and> property ''type'' m \<noteq> Some (JStr ''ping''))"
    by simp
  have k: "map fst (connections ?st) = [(1, 0, 3)]"
    by (simp add: eval_defs)
  show ?thesis
    using unknown_message_ignored [OF h1, of "newConnection 1 0" "(1, 0, 3)" ?st]
      unknown_message_ignored [OF h2, of "newConnection 1 0" "(1, 0, 3)" ?st] p k
    by blast
qed


end
